theory Spec2Isabelle
  imports Main
begin

section \<open>Python strings\<close>

text \<open>
  A Python \<open>str\<close> is a sequence of Unicode code points, so it is modelled as a list of
  natural numbers; \<open>str\<close> embeds an ASCII literal of the source. Messages of the source
  that are not ASCII are written as code points.
\<close>

type_synonym py_str = "nat list"

primrec str :: "string \<Rightarrow> py_str" where
  "str [] = []"
| "str (c # cs) = of_char c # str cs"

section \<open>Identifier validator (main.py, is_script_name_safe)\<close>

text \<open>
  \<open>re.fullmatch(r"[a-zA-Z0-9_]+", script_name)\<close>: the pattern is one character class,
  repeated one or more times, and \<open>fullmatch\<close> asks the whole string to match. A class
  is a list of ranges and single characters, compared by code point.
\<close>

datatype class_item = Range char char | Single char

fun in_item :: "class_item \<Rightarrow> nat \<Rightarrow> bool" where
  "in_item (Range lo hi) c = (of_char lo \<le> c \<and> c \<le> of_char hi)"
| "in_item (Single x) c = (c = of_char x)"

definition in_class :: "class_item list \<Rightarrow> nat \<Rightarrow> bool" where
  "in_class items c = list_ex (\<lambda>i. in_item i c) items"

fun fullmatch_plus :: "class_item list \<Rightarrow> py_str \<Rightarrow> bool" where
  "fullmatch_plus items [] = False"
| "fullmatch_plus items [c] = in_class items c"
| "fullmatch_plus items (c # cs) = (in_class items c \<and> fullmatch_plus items cs)"

definition script_name_class :: "class_item list" where
  "script_name_class =
     [Range CHR ''a'' CHR ''z'', Range CHR ''A'' CHR ''Z'', Range CHR ''0'' CHR ''9'',
      Single CHR ''_'']"

definition is_script_name_safe :: "py_str \<Rightarrow> bool" where
  "is_script_name_safe script_name = fullmatch_plus script_name_class script_name"

text \<open>The characters the specification allows: ASCII letters, digits and underscore.\<close>

definition ascii_word_chars :: "nat set" where
  "ascii_word_chars =
     set (str ''abcdefghijklmnopqrstuvwxyzABCDEFGHIJKLMNOPQRSTUVWXYZ0123456789_'')"

section \<open>Python values, exceptions and the runtime\<close>

text \<open>
  The values a handler receives and returns. \<open>PBytes\<close> is \<open>bytes\<close> (a \<open>char\<close> is one
  byte); \<open>PObject\<close> stands for an object of any other type, such as a \<open>bytearray\<close>,
  named by its type. A \<open>dict\<close> is an association list with distinct keys.
\<close>

type_synonym py_bytes = "char list"

datatype pyval =
    PNone
  | PBool bool
  | PInt int
  | PStr py_str
  | PBytes py_bytes
  | PList "pyval list"
  | PDict "(pyval \<times> pyval) list"
  | PObject string

text \<open>
  An exception is known by the classes it is an instance of (most specific first, as
  \<open>except\<close> clauses test them) and by \<open>str(e)\<close>. The model covers instances of
  \<open>Exception\<close>, which every \<open>except Exception\<close> clause of the source catches.
\<close>

datatype py_exc = PyExc (exc_mro: "string list") (exc_msg: py_str)

definition isinstance :: "py_exc \<Rightarrow> string \<Rightarrow> bool" where
  "isinstance e cls = (cls \<in> set (exc_mro e))"

text \<open>\<open>HTTPException(status_code=..., detail=...)\<close> of the web framework.\<close>

record http_exception =
  status_code :: int
  detail :: py_str

text \<open>
  What the interpreter and the framework decide, and the repository does not: the text of
  \<open>str(e)\<close> for an \<open>HTTPException\<close>, the text a value other than a \<open>str\<close> formats to
  in an f-string, the messages of the \<open>TypeError\<close> raised when keyword arguments do
  not bind or when the called object is not callable, and the exception, if any, that
  the framework's constructor \<open>Response(content=..., media_type=..., headers=...)\<close>
  raises for the given content, media type and headers.
\<close>

record runtime =
  http_exception_str :: "int \<Rightarrow> py_str \<Rightarrow> py_str"
  value_str :: "pyval \<Rightarrow> py_str"
  mismatch_str :: "py_str list \<Rightarrow> py_str list \<Rightarrow> py_str list \<Rightarrow> py_str"
  not_callable_str :: "pyval \<Rightarrow> py_str"
  response_raises :: "py_bytes \<Rightarrow> pyval \<Rightarrow> (py_str \<times> py_str) list \<Rightarrow> py_exc option"

definition http_as_exc :: "runtime \<Rightarrow> http_exception \<Rightarrow> py_exc" where
  "http_as_exc rt h =
     PyExc [''HTTPException'', ''Exception'']
       (http_exception_str rt (status_code h) (detail h))"

fun format_value :: "runtime \<Rightarrow> pyval \<Rightarrow> py_str" where
  "format_value rt (PStr s) = s"
| "format_value rt v = value_str rt v"

abbreviation (input) squote :: py_str where
  "squote \<equiv> [39]"

abbreviation (input) dquote :: py_str where
  "dquote \<equiv> [34]"

section \<open>Handler modules\<close>

text \<open>
  A callable takes keyword arguments: the names it requires, the names it accepts with a
  default, and whether it takes \<open>**kwargs\<close>. Its body maps the bound arguments to a
  returned value or a raised exception. Any other attribute of a module is a plain value.
\<close>

record py_signature =
  required :: "py_str list"
  optional :: "py_str list"
  var_keyword :: bool

datatype py_attr =
    Callable py_signature "(py_str \<times> pyval) list \<Rightarrow> py_exc + pyval"
  | Attribute pyval

record py_module =
  module_id :: nat
  mod_name :: py_str
  attributes :: "(py_str \<times> py_attr) list"

definition hasattr :: "py_module \<Rightarrow> py_str \<Rightarrow> bool" where
  "hasattr m name = (map_of (attributes m) name \<noteq> None)"

definition callable_attribute :: "py_module \<Rightarrow> py_str \<Rightarrow> bool" where
  "callable_attribute m name =
     (case map_of (attributes m) name of Some (Callable sg body) \<Rightarrow> True | _ \<Rightarrow> False)"

definition keys_match :: "py_signature \<Rightarrow> py_str list \<Rightarrow> bool" where
  "keys_match sg ks =
     ((var_keyword sg \<or> list_all (\<lambda>k. k \<in> set (required sg @ optional sg)) ks) \<and>
      list_all (\<lambda>r. r \<in> set ks) (required sg))"

text \<open>\<open>method(**params)\<close>: binding the keyword arguments, then running the body.\<close>

fun call_attr :: "runtime \<Rightarrow> py_attr \<Rightarrow> (py_str \<times> pyval) list \<Rightarrow> py_exc + pyval" where
  "call_attr rt (Callable sg body) params =
     (if keys_match sg (map fst params) then body params
      else Inl (PyExc [''TypeError'', ''Exception'']
                 (mismatch_str rt (required sg) (optional sg) (map fst params))))"
| "call_attr rt (Attribute v) params =
     Inl (PyExc [''TypeError'', ''Exception''] (not_callable_str rt v))"

section \<open>Module cache (main.py, load_script)\<close>

text \<open>
  Handler storage maps a path to a file: one for which the import machinery finds no
  loader, or a source whose top-level code either raises or leaves the attributes of the
  module.
\<close>

datatype script_file = NoLoader | Source "py_exc + (py_str \<times> py_attr) list"

type_synonym storage = "py_str \<rightharpoonup> script_file"

definition SCRIPTS_DIR :: py_str where
  "SCRIPTS_DIR = str ''scripts''"

text \<open>\<open>os.path.join\<close> of two components on a POSIX system.\<close>

definition path_join :: "py_str \<Rightarrow> py_str \<Rightarrow> py_str" where
  "path_join a b =
     (if b \<noteq> [] \<and> hd b = 47 then b
      else if a = [] \<or> last a = 47 then a @ b
      else a @ [47] @ b)"

text \<open>
  The state of the process: the entries of the \<open>lru_cache\<close> on \<open>load_script\<close>, most
  recently used first; the identity the next module object gets; and the log of the
  scripts whose top-level code \<open>exec_module\<close> has run, in order.
\<close>

record loader_state =
  cache :: "(py_str \<times> py_module) list"
  next_module_id :: nat
  init_log :: "py_str list"

definition maxsize :: nat where
  "maxsize = 32"

text \<open>The body of \<open>load_script\<close>, which runs on a cache miss.\<close>

definition load_error :: "py_exc \<Rightarrow> http_exception" where
  "load_error e =
     \<lparr>status_code = 500, detail = str ''Error loading script: '' @ exc_msg e\<rparr>"

definition load_script_body ::
  "runtime \<Rightarrow> storage \<Rightarrow> py_str \<Rightarrow> loader_state \<Rightarrow>
     (http_exception + py_module) \<times> loader_state" where
  "load_script_body rt fs script_name st =
     (if \<not> is_script_name_safe script_name then
        (Inl \<lparr>status_code = 400, detail = str ''Unsafe script name.''\<rparr>, st)
      else
        let script_path = path_join SCRIPTS_DIR (script_name @ str ''.py'') in
        case fs script_path of
          None \<Rightarrow>
            (Inl \<lparr>status_code = 404,
                  detail = str ''Script '' @ squote @ script_name @ squote @
                           str '' not found.''\<rparr>, st)
        | Some NoLoader \<Rightarrow>
            (Inl (load_error
                   (http_as_exc rt
                      \<lparr>status_code = 500, detail = str ''Error loading script.''\<rparr>)), st)
        | Some (Source top_level) \<Rightarrow>
            let module = \<lparr>module_id = next_module_id st, mod_name = script_name,
                          attributes = []\<rparr>;
                st1 = st\<lparr>next_module_id := Suc (next_module_id st),
                         init_log := init_log st @ [script_name]\<rparr>
            in (case top_level of
                  Inl e \<Rightarrow> (Inl (load_error e), st1)
                | Inr attrs \<Rightarrow> (Inr (module\<lparr>attributes := attrs\<rparr>), st1)))"

text \<open>
  \<open>@lru_cache(maxsize=32)\<close>: a hit returns the stored module and makes the entry the
  most recent one; a miss runs the body, stores a returned module in front and drops the
  least recently used entry beyond the capacity. A raised exception stores nothing.
\<close>

definition load_script ::
  "runtime \<Rightarrow> storage \<Rightarrow> py_str \<Rightarrow> loader_state \<Rightarrow>
     (http_exception + py_module) \<times> loader_state" where
  "load_script rt fs script_name st =
     (case map_of (cache st) script_name of
        Some m \<Rightarrow>
          (Inr m,
           st\<lparr>cache := (script_name, m) # filter (\<lambda>e. fst e \<noteq> script_name) (cache st)\<rparr>)
      | None \<Rightarrow>
          (case load_script_body rt fs script_name st of
             (Inl e, st') \<Rightarrow> (Inl e, st')
           | (Inr m, st') \<Rightarrow>
               (Inr m, st'\<lparr>cache := take maxsize ((script_name, m) # cache st')\<rparr>)))"

section \<open>Dispatch engine (main.py, run_script_async)\<close>

text \<open>
  What \<open>run_script_async\<close> returns: the framework's \<open>Response\<close> for a file, or the
  handler's value as it is.
\<close>

record response =
  content :: py_bytes
  media_type :: pyval
  headers :: "(py_str \<times> py_str) list"

datatype dispatch_result = Binary response | Structured pyval

definition dict_get :: "(pyval \<times> pyval) list \<Rightarrow> pyval \<Rightarrow> pyval \<Rightarrow> pyval" where
  "dict_get d k dflt = (case map_of d k of Some v \<Rightarrow> v | None \<Rightarrow> dflt)"

text \<open>
  \<open>asyncio.wait_for(asyncio.to_thread(method, **params), timeout=timeout)\<close>: the call
  runs on a worker thread, and either its outcome arrives before the timer fires or
  \<open>asyncio.TimeoutError\<close> is raised. Which of the two happens is decided by the clock,
  so it is an input of the model.
\<close>

definition wait_for :: "bool \<Rightarrow> py_exc + pyval \<Rightarrow> py_exc + pyval" where
  "wait_for timer_fired outcome =
     (if timer_fired then Inl (PyExc [''asyncio.TimeoutError'', ''Exception''] [])
      else outcome)"

text \<open>
  The lines of the \<open>try\<close> block after the call: file result or structured result.
  The \<open>Response\<close> is constructed inside the \<open>try\<close> block, so an exception of its
  constructor is raised there like any other.
\<close>

fun classify_result :: "runtime \<Rightarrow> pyval \<Rightarrow> py_exc + dispatch_result" where
  "classify_result rt (PDict d) =
     (case map_of d (PStr (str ''content'')) of
        None \<Rightarrow> Inr (Structured (PDict d))
      | Some (PBytes b) \<Rightarrow>
          (let filename = dict_get d (PStr (str ''filename'')) (PStr (str ''file.bin''));
               media = dict_get d (PStr (str ''media_type''))
                         (PStr (str ''application/octet-stream''));
               hdrs = [(str ''Content-Disposition'',
                        str ''attachment; filename='' @ dquote @ format_value rt filename @
                        dquote)]
           in case response_raises rt b media hdrs of
                Some e \<Rightarrow> Inl e
              | None \<Rightarrow> Inr (Binary \<lparr>content = b, media_type = media, headers = hdrs\<rparr>))
      | Some _ \<Rightarrow>
          Inl (http_as_exc rt
                 \<lparr>status_code = 500, detail = str ''File content must be bytes.''\<rparr>))"
| "classify_result rt v = Inr (Structured v)"


text \<open>The \<open>except\<close> clauses of \<open>run_script_async\<close>, in the order of the source.\<close>

definition handle_exception :: "py_str \<Rightarrow> py_exc \<Rightarrow> http_exception" where
  "handle_exception method_name e =
     (if isinstance e ''asyncio.TimeoutError'' then
        \<lparr>status_code = 408, detail = str ''Script execution timed out.''\<rparr>
      else if isinstance e ''TypeError'' then
        \<lparr>status_code = 400,
         detail = str ''Error calling method '' @ squote @ method_name @ squote @
                  str '': '' @ exc_msg e\<rparr>
      else
        \<lparr>status_code = 500,
         detail = str ''Error executing method '' @ squote @ method_name @ squote @
                  str '': '' @ exc_msg e\<rparr>)"

definition method_not_found :: "py_str \<Rightarrow> py_str \<Rightarrow> http_exception" where
  "method_not_found script_name method_name =
     \<lparr>status_code = 404,
      detail = [1052, 1077, 1090, 1086, 1076, 32] @ squote @ method_name @ squote @
               [32, 1085, 1077, 32, 1085, 1072, 1081, 1076, 1077, 1085, 32, 1074, 32,
                1089, 1082, 1088, 1080, 1087, 1090, 1077, 32] @ squote @ script_name @
               squote @ str ''.''\<rparr>"

definition invoke :: "runtime \<Rightarrow> bool \<Rightarrow> py_attr \<Rightarrow> (py_str \<times> pyval) list \<Rightarrow>
    py_exc + dispatch_result" where
  "invoke rt timer_fired method params =
     (case wait_for timer_fired (call_attr rt method params) of
        Inl e \<Rightarrow> Inl e
      | Inr result \<Rightarrow> classify_result rt result)"

definition run_script_async ::
  "runtime \<Rightarrow> storage \<Rightarrow> bool \<Rightarrow> py_str \<Rightarrow> py_str \<Rightarrow> (py_str \<times> pyval) list \<Rightarrow> int \<Rightarrow>
     loader_state \<Rightarrow> (http_exception + dispatch_result) \<times> loader_state" where
  "run_script_async rt fs timer_fired script_name method_name params timeout st =
     (case load_script rt fs script_name st of
        (Inl e, st') \<Rightarrow> (Inl e, st')
      | (Inr module, st') \<Rightarrow>
          (case map_of (attributes module) method_name of
             None \<Rightarrow> (Inl (method_not_found script_name method_name), st')
           | Some method \<Rightarrow>
               (case invoke rt timer_fired method params of
                  Inl e \<Rightarrow> (Inl (handle_exception method_name e), st')
                | Inr r \<Rightarrow> (Inr r, st'))))"

section \<open>Remote command executor (scripts/ssh.py, execute_command)\<close>

text \<open>\<open>SSHError(message)\<close>, raised for the two validation failures.\<close>

datatype ssh_error = SSHError py_str

text \<open>
  The result dictionary, whose keys are fixed. \<open>execution_time\<close> is the rounded number of
  seconds, counted in hundredths; \<open>result_host\<close> is the key \<open>'host'\<close>.
\<close>

record ssh_result =
  status :: py_str
  exit_code :: int
  stdout :: pyval
  stderr :: py_str
  error :: py_str
  execution_time :: int
  result_host :: py_str

datatype host_policy = AutoAddPolicy | WarningPolicy | RejectPolicy

text \<open>
  The channel of the remote session, as the polling loop sees it: the answers at the
  \<open>i\<close>-th pass of the loop, the chunks \<open>recv\<close> and \<open>recv_stderr\<close> hand out when asked
  for at most so many bytes, and the exit status.
\<close>

record ssh_channel =
  exit_status_ready :: "nat \<Rightarrow> bool"
  recv_ready :: "nat \<Rightarrow> bool"
  recv :: "nat \<Rightarrow> int \<Rightarrow> py_exc + py_bytes"
  recv_stderr_ready :: "nat \<Rightarrow> bool"
  recv_stderr :: "nat \<Rightarrow> int \<Rightarrow> py_exc + py_bytes"
  recv_exit_status :: int

text \<open>
  Everything outside the function: the remote host answering \<open>connect\<close> (an exception or
  success), the session that runs the command (an exception from \<open>get_transport\<close>,
  \<open>open_session\<close>, \<open>settimeout\<close> or \<open>exec_command\<close>, or a channel), \<open>bytes.decode\<close>,
  \<open>str.strip\<close>, \<open>json.loads\<close>, and the rounded time between the two readings of
  \<open>perf_counter\<close>.
\<close>

record ssh_world =
  connect :: "host_policy \<Rightarrow> (string \<times> pyval) list \<Rightarrow> py_exc option"
  session :: "py_str \<Rightarrow> py_exc + ssh_channel"
  decode :: "py_bytes \<Rightarrow> py_exc + py_str"
  strip :: "py_str \<Rightarrow> py_str"
  json_loads :: "py_str \<Rightarrow> py_exc + pyval"
  elapsed :: int

text \<open>
  What the function does to the outside, in order: a reading of \<open>perf_counter\<close>, a call
  of \<open>connect\<close> with the host key policy that was set and the connection arguments, and
  the attempt to open a session and send the command.
\<close>

datatype ssh_event =
    PerfCounter
  | Connect host_policy "(string \<times> pyval) list"
  | ExecCommand py_str

fun join :: "py_str \<Rightarrow> py_str list \<Rightarrow> py_str" where
  "join sep [] = []"
| "join sep [x] = x"
| "join sep (x # xs) = x @ sep @ join sep xs"

definition truthy :: "py_str option \<Rightarrow> bool" where
  "truthy s = (case s of None \<Rightarrow> False | Some t \<Rightarrow> t \<noteq> [])"

definition missing_parameters :: "py_str \<Rightarrow> py_str option \<Rightarrow> py_str \<Rightarrow> py_str list" where
  "missing_parameters host username command =
     (if host = [] then [str ''host''] else []) @
     (if \<not> truthy username then [str ''username''] else []) @
     (if command = [] then [str ''command''] else [])"

definition policy_table :: "(py_str \<times> host_policy) list" where
  "policy_table =
     [(str ''auto'', AutoAddPolicy), (str ''warning'', WarningPolicy),
      (str ''strict'', RejectPolicy)]"

definition type_name :: "py_exc \<Rightarrow> py_str" where
  "type_name e = (case exc_mro e of [] \<Rightarrow> [] | c # _ \<Rightarrow> str c)"

text \<open>
  The polling loop \<open>while not channel.exit_status_ready()\<close>. It ends when the channel
  reports the exit status or a read raises, and runs forever on a channel that does
  neither: then the function has no value.
\<close>

partial_function (option) drain ::
  "ssh_channel \<Rightarrow> int \<Rightarrow> nat \<Rightarrow> py_bytes \<Rightarrow> py_bytes \<Rightarrow>
     (py_exc + nat \<times> py_bytes \<times> py_bytes) option" where
  "drain ch buffer_size i out err =
     (if exit_status_ready ch i then Some (Inr (i, out, err))
      else
        (case (if recv_ready ch i then recv ch i buffer_size else Inr []) of
           Inl e \<Rightarrow> Some (Inl e)
         | Inr chunk \<Rightarrow>
             (case (if recv_stderr_ready ch i then recv_stderr ch i buffer_size
                    else Inr []) of
                Inl e \<Rightarrow> Some (Inl e)
              | Inr chunk' \<Rightarrow> drain ch buffer_size (Suc i) (out @ chunk) (err @ chunk'))))"

text \<open>
  The lines that fill \<open>result['stdout']\<close>. Each step of the \<open>try\<close> block returns the
  exception it raised, if any, with the result dictionary as it stands at that point.
\<close>

definition handle_output ::
  "ssh_world \<Rightarrow> bool \<Rightarrow> py_str \<Rightarrow> ssh_result \<Rightarrow> py_exc option \<times> ssh_result" where
  "handle_output w parse_json stdout_str result =
     (if parse_json \<and> stdout_str \<noteq> [] then
        (case json_loads w stdout_str of
           Inr v \<Rightarrow> (None, result\<lparr>stdout := v\<rparr>)
         | Inl e \<Rightarrow>
             (if isinstance e ''JSONDecodeError''
              then (None, result\<lparr>stdout := PStr stdout_str\<rparr>)
              else (Some e, result)))
      else (None, result\<lparr>stdout := (if stdout_str \<noteq> [] then PStr stdout_str else PNone)\<rparr>))"

text \<open>
  The end of the \<open>with\<close> block, from decoding on: the decoded and stripped streams, the
  handling of \<open>stdout\<close>, and \<open>result.update\<close>.
\<close>

definition assemble_result ::
  "ssh_world \<Rightarrow> bool \<Rightarrow> int \<Rightarrow> py_bytes \<Rightarrow> py_bytes \<Rightarrow> ssh_result \<Rightarrow>
     py_exc option \<times> ssh_result" where
  "assemble_result w parse_json code out err result =
     (case decode w out of
        Inl e \<Rightarrow> (Some e, result)
      | Inr out_text \<Rightarrow>
          (case decode w err of
             Inl e \<Rightarrow> (Some e, result)
           | Inr err_text \<Rightarrow>
               (let stdout_str = strip w out_text;
                    stderr_str = strip w err_text
                in case handle_output w parse_json stdout_str result of
                     (Some e, result') \<Rightarrow> (Some e, result')
                   | (None, result') \<Rightarrow>
                       (None,
                        result'\<lparr>status := (if code = 0 then str ''success''
                                            else str ''error''),
                                 exit_code := code,
                                 stderr := stderr_str\<rparr>))))"

text \<open>
  The body of \<open>with transport.open_session() as channel\<close>, after the command is sent:
  the polling loop, the last two reads, the exit status, and the assembly.
\<close>

definition read_channel ::
  "ssh_world \<Rightarrow> ssh_channel \<Rightarrow> bool \<Rightarrow> int \<Rightarrow> ssh_result \<Rightarrow>
     (py_exc option \<times> ssh_result) option" where
  "read_channel w ch parse_json buffer_size result =
     (case drain ch buffer_size 0 [] [] of
        None \<Rightarrow> None
      | Some (Inl e) \<Rightarrow> Some (Some e, result)
      | Some (Inr (n, out, err)) \<Rightarrow>
          Some
            (case recv ch n buffer_size of
               Inl e \<Rightarrow> (Some e, result)
             | Inr last_out \<Rightarrow>
                 (case recv_stderr ch n buffer_size of
                    Inl e \<Rightarrow> (Some e, result)
                  | Inr last_err \<Rightarrow>
                      assemble_result w parse_json (recv_exit_status ch)
                        (out @ last_out) (err @ last_err) result)))"

text \<open>The dictionary \<open>connect_args\<close>, with the two optional entries.\<close>

definition str_arg :: "py_str option \<Rightarrow> pyval" where
  "str_arg s = (case s of None \<Rightarrow> PNone | Some t \<Rightarrow> PStr t)"

definition build_connect_args ::
  "py_str \<Rightarrow> int \<Rightarrow> py_str option \<Rightarrow> int \<Rightarrow> py_str option \<Rightarrow> py_str option \<Rightarrow>
     (string \<times> pyval) list" where
  "build_connect_args host port username timeout password key_filename =
     [(''hostname'', PStr host), (''port'', PInt port), (''username'', str_arg username),
      (''timeout'', PInt timeout), (''banner_timeout'', PInt 30),
      (''auth_timeout'', PInt timeout)] @
     (if truthy password then [(''password'', str_arg password)] else []) @
     (if truthy key_filename then [(''key_filename'', str_arg key_filename)] else [])"

text \<open>
  The \<open>try\<close> block: the events it causes, the exception it raised and the result.
  Leaving the two \<open>with\<close> blocks closes the channel and the client, which is taken
  not to raise.
\<close>

definition ssh_try ::
  "ssh_world \<Rightarrow> py_str \<Rightarrow> py_str \<Rightarrow> py_str option \<Rightarrow> py_str option \<Rightarrow> int \<Rightarrow> int \<Rightarrow>
     py_str option \<Rightarrow> py_str \<Rightarrow> bool \<Rightarrow> int \<Rightarrow> ssh_result \<Rightarrow>
     (ssh_event list \<times> py_exc option \<times> ssh_result) option" where
  "ssh_try w host command username password port timeout key_filename policy parse_json
     buffer_size result =
     (case map_of policy_table policy of
        None \<Rightarrow> Some ([], Some (PyExc [''KeyError'', ''LookupError'', ''Exception'']
                                 (squote @ policy @ squote)),
                      result)
      | Some host_policy \<Rightarrow>
          (let connect_args =
                 build_connect_args host port username timeout password key_filename
           in case connect w host_policy connect_args of
                Some e \<Rightarrow> Some ([Connect host_policy connect_args], Some e, result)
              | None \<Rightarrow>
                  (case session w command of
                     Inl e \<Rightarrow>
                       Some ([Connect host_policy connect_args, ExecCommand command],
                             Some e, result)
                   | Inr ch \<Rightarrow>
                       (case read_channel w ch parse_json buffer_size result of
                          None \<Rightarrow> None
                        | Some (raised, result') \<Rightarrow>
                            Some ([Connect host_policy connect_args, ExecCommand command],
                                  raised, result')))))"

text \<open>The \<open>except\<close> clauses of \<open>execute_command\<close>, in the order of the source.\<close>

definition handle_ssh_exception :: "py_exc \<Rightarrow> ssh_result \<Rightarrow> ssh_result" where
  "handle_ssh_exception e result =
     (if isinstance e ''AuthenticationException'' then
        result\<lparr>error := str ''Authentication failed'' @ str '': Check credentials''\<rparr>
      else if isinstance e ''SSHException'' \<or> isinstance e ''OSError'' then
        result\<lparr>error := (str ''Connection error: '' @ type_name e) @ str '': '' @ exc_msg e\<rparr>
      else
        result\<lparr>error := (str ''Unexpected error: '' @ type_name e) @ str '': '' @ exc_msg e\<rparr>)"

text \<open>The result dictionary as it is created, before the timer starts.\<close>

definition initial_result :: "py_str \<Rightarrow> ssh_result" where
  "initial_result host =
     \<lparr>status = str ''error'', exit_code = - 1, stdout = PNone, stderr = [], error = [],
      execution_time = 0, result_host = host\<rparr>"

definition execute_command ::
  "ssh_world \<Rightarrow> py_str \<Rightarrow> py_str \<Rightarrow> py_str option \<Rightarrow> py_str option \<Rightarrow> int \<Rightarrow> int \<Rightarrow>
     py_str option \<Rightarrow> py_str \<Rightarrow> bool \<Rightarrow> int \<Rightarrow>
     (ssh_event list \<times> (ssh_error + ssh_result)) option" where
  "execute_command w host command username password port timeout key_filename policy
     parse_json buffer_size =
     (let errors = missing_parameters host username command in
      if errors \<noteq> [] then
        Some ([], Inl (SSHError (str ''Missing required parameters: '' @
                                 join (str '', '') errors)))
      else if policy \<notin> set [str ''auto'', str ''warning'', str ''strict''] then
        Some ([], Inl (SSHError
                        (str ''Invalid host policy. Valid options: auto, warning, strict'')))
      else
        (let result = initial_result host
         in case ssh_try w host command username password port timeout key_filename policy
                   parse_json buffer_size result of
              None \<Rightarrow> None
            | Some (events, raised, result') \<Rightarrow>
                (let result'' = (case raised of None \<Rightarrow> result'
                                 | Some e \<Rightarrow> handle_ssh_exception e result')
                 in Some ([PerfCounter] @ events @ [PerfCounter],
                          Inr (result''\<lparr>execution_time := elapsed w\<rparr>)))))"

section \<open>A sample installation\<close>

text \<open>
  Concrete inputs on which the theorems below are exercised: a runtime, a storage with
  three scripts (one whose import fails), and the state of a fresh process. The handler
  \<open>localized\<close> of the script \<open>report\<close> returns a file whose name is Cyrillic.
\<close>

text \<open>
  The constructor of the sample runtime behaves as the web framework's does: it encodes
  the header names and values as Latin-1, which fails on a code point above 255, and then
  asks the media type, unless it is \<open>None\<close>, whether it starts with \<open>text/\<close>, which
  fails on a value that is not a \<open>str\<close>.
\<close>

definition sample_response_raises ::
  "py_bytes \<Rightarrow> pyval \<Rightarrow> (py_str \<times> py_str) list \<Rightarrow> py_exc option" where
  "sample_response_raises b media hdrs =
     (if list_ex (\<lambda>(k, v). list_ex (\<lambda>c. 256 \<le> c) (k @ v)) hdrs then
        Some (PyExc [''UnicodeEncodeError'', ''UnicodeError'', ''ValueError'', ''Exception'']
                (str ''latin-1 codec cannot encode characters''))
      else
        (case media of
           PStr t \<Rightarrow> None
         | PNone \<Rightarrow> None
         | _ \<Rightarrow> Some (PyExc [''AttributeError'', ''Exception'']
                        (str ''object has no attribute startswith''))))"

definition sample_runtime :: runtime where
  "sample_runtime =
     \<lparr>http_exception_str = (\<lambda>code d. d),
      value_str = (\<lambda>v. str ''object''),
      mismatch_str = (\<lambda>req opt ks. str ''got an unexpected keyword argument''),
      not_callable_str = (\<lambda>v. str ''object is not callable''),
      response_raises = sample_response_raises\<rparr>"

definition localized_file :: pyval where
  "localized_file =
     PDict [(PStr (str ''content''), PBytes ''abc''),
            (PStr (str ''filename''), PStr ([1086, 1090, 1095, 1105, 1090] @ str ''.bin''))]"

definition report_attributes :: "(py_str \<times> py_attr) list" where
  "report_attributes =
     [(str ''download'',
       Callable \<lparr>required = [], optional = [], var_keyword = False\<rparr>
         (\<lambda>args. Inr (PDict [(PStr (str ''content''), PBytes ''abc''),
                              (PStr (str ''filename''), PStr (str ''a.bin''))]))),
      (str ''localized'',
       Callable \<lparr>required = [], optional = [], var_keyword = False\<rparr>
         (\<lambda>args. Inr localized_file)),
      (str ''bad_file'',
       Callable \<lparr>required = [], optional = [], var_keyword = False\<rparr>
         (\<lambda>args. Inr (PDict [(PStr (str ''content''), PStr (str ''not-bytes''))]))),
      (str ''info'',
       Callable \<lparr>required = [str ''name''], optional = [str ''verbose''],
                 var_keyword = False\<rparr>
         (\<lambda>args. Inr (PDict [(PStr (str ''a''), PInt 1)]))),
      (str ''boom'',
       Callable \<lparr>required = [], optional = [], var_keyword = False\<rparr>
         (\<lambda>args. Inl (PyExc [''TypeError'', ''Exception'']
                          (str ''unsupported operand type(s)'')))),
      (str ''VERSION'', Attribute (PInt 1))]"

definition sample_storage :: storage where
  "sample_storage =
     map_of
       [(str ''scripts/report.py'', Source (Inr report_attributes)),
        (str ''scripts/ssh.py'',
         Source (Inl (PyExc [''ModuleNotFoundError'', ''ImportError'', ''Exception'']
                        (str ''No module named config'')))),
        (str ''scripts/odd.py'', NoLoader)]"

text \<open>
  Three remote hosts: one that refuses the connection, one that rejects the credentials,
  and one that runs the command, reports the exit status at the second poll and hands
  out \<open>ok\<close> on standard output.
\<close>

definition sample_channel :: ssh_channel where
  "sample_channel =
     \<lparr>exit_status_ready = (\<lambda>i. 1 \<le> i),
      recv_ready = (\<lambda>i. i = 0),
      recv = (\<lambda>i n. if i = 0 then Inr ''ok'' else Inr []),
      recv_stderr_ready = (\<lambda>i. False),
      recv_stderr = (\<lambda>i n. Inr []),
      recv_exit_status = 0\<rparr>"

definition working_world :: ssh_world where
  "working_world =
     \<lparr>connect = (\<lambda>p a. None),
      session = (\<lambda>c. Inr sample_channel),
      decode = (\<lambda>b. Inr (str b)),
      strip = (\<lambda>s. s),
      json_loads = (\<lambda>s. Inl (PyExc [''JSONDecodeError'', ''ValueError'', ''Exception'']
                                 (str ''Expecting value''))),
      elapsed = 12\<rparr>"

definition unreachable_world :: ssh_world where
  "unreachable_world =
     working_world\<lparr>connect := (\<lambda>p a. Some (PyExc [''timeout'', ''OSError'', ''Exception'']
                                                (str ''timed out'')))\<rparr>"

definition rejecting_world :: ssh_world where
  "rejecting_world =
     working_world\<lparr>connect :=
       (\<lambda>p a. Some (PyExc [''AuthenticationException'', ''SSHException'', ''Exception'']
                       (str ''Authentication failed.'')))\<rparr>"

definition fresh_state :: loader_state where
  "fresh_state = \<lparr>cache = [], next_module_id = 0, init_log = []\<rparr>"

definition report_module :: py_module where
  "report_module =
     \<lparr>module_id = 0, mod_name = str ''report'', attributes = report_attributes\<rparr>"

definition loaded_state :: loader_state where
  "loaded_state =
     \<lparr>cache = [(str ''report'', report_module)], next_module_id = 1,
      init_log = [str ''report'']\<rparr>"

section \<open>Properties of the identifier validator\<close>

lemma fullmatch_plus_iff:
  "fullmatch_plus items s \<longleftrightarrow> s \<noteq> [] \<and> (\<forall>c \<in> set s. in_class items c)"
  by (induction items s rule: fullmatch_plus.induct) auto

lemma lower_range: "(97 \<le> c \<and> c \<le> 122) \<longleftrightarrow> c \<in> set [97..<123::nat]"
  unfolding set_upt by auto

lemma upper_range: "(65 \<le> c \<and> c \<le> 90) \<longleftrightarrow> c \<in> set [65..<91::nat]"
  unfolding set_upt by auto

lemma digit_range: "(48 \<le> c \<and> c \<le> 57) \<longleftrightarrow> c \<in> set [48..<58::nat]"
  unfolding set_upt by auto

lemma in_script_name_class_iff:
  "in_class script_name_class c \<longleftrightarrow> c \<in> ascii_word_chars"
proof -
  have "in_class script_name_class c \<longleftrightarrow>
          c \<in> set [97..<123] \<or> c \<in> set [65..<91] \<or> c \<in> set [48..<58] \<or> c = 95"
    unfolding in_class_def script_name_class_def
    by (simp del: upt_rec_numeral set_upt add: lower_range upper_range digit_range)
  also have "\<dots> \<longleftrightarrow> c \<in> ascii_word_chars"
    unfolding ascii_word_chars_def by (simp add: upt_rec)
  finally show ?thesis .
qed

text \<open>
  C1. A string with a character outside \<open>[A-Za-z0-9_]\<close> is rejected, and an accepted
  string is non-empty and made of ASCII letters, digits and underscore only.
\<close>

theorem is_script_name_safe_full_match:
  "((\<exists>c \<in> set s. c \<notin> ascii_word_chars) \<longrightarrow> \<not> is_script_name_safe s) \<and>
   (is_script_name_safe s \<longrightarrow> s \<noteq> [] \<and> set s \<subseteq> ascii_word_chars)"
  by (auto simp: is_script_name_safe_def fullmatch_plus_iff in_script_name_class_iff)

theorem is_script_name_safe_full_match_witness:
  "(\<exists>c \<in> set (str ''../etc/passwd''). c \<notin> ascii_word_chars) \<and>
   \<not> is_script_name_safe (str ''../etc/passwd'') \<and>
   is_script_name_safe (str ''ssh_2'') \<and> set (str ''ssh_2'') \<subseteq> ascii_word_chars"
  using is_script_name_safe_full_match [of "str ''../etc/passwd''"]
    is_script_name_safe_full_match [of "str ''ssh_2''"]
  by (simp add: is_script_name_safe_def script_name_class_def in_class_def
      ascii_word_chars_def)

section \<open>Properties of the module cache\<close>

lemma load_script_hit:
  "map_of (cache st) name = Some m \<Longrightarrow>
   load_script rt fs name st =
     (Inr m, st\<lparr>cache := (name, m) # filter (\<lambda>e. fst e \<noteq> name) (cache st)\<rparr>)"
  by (simp add: load_script_def)

lemma load_script_miss:
  "map_of (cache st) name = None \<Longrightarrow>
   load_script rt fs name st =
     (case load_script_body rt fs name st of
        (Inl e, st') \<Rightarrow> (Inl e, st')
      | (Inr m, st') \<Rightarrow> (Inr m, st'\<lparr>cache := take maxsize ((name, m) # cache st')\<rparr>))"
  by (simp add: load_script_def)


lemma load_script_body_log:
  "load_script_body rt fs name st = (Inr m, st') \<Longrightarrow> init_log st' = init_log st @ [name]"
  by (auto simp: load_script_body_def Let_def
      split: if_splits option.splits script_file.splits sum.splits)

lemma load_script_returns_cached:
  assumes "load_script rt fs name st = (Inr m, st1)"
  shows "map_of (cache st1) name = Some m"
proof (cases "map_of (cache st) name")
  case None
  with assms show ?thesis
    by (auto simp: load_script_miss maxsize_def split: prod.splits sum.splits)
next
  case (Some m')
  with assms show ?thesis
    by (auto simp: load_script_hit)
qed

lemma load_script_log:
  assumes "load_script rt fs name st = (Inr m, st1)"
  shows "init_log st1 = init_log st @ (if map_of (cache st) name = None then [name] else [])"
proof (cases "map_of (cache st) name")
  case None
  with assms show ?thesis
    by (auto simp: load_script_miss dest: load_script_body_log split: prod.splits sum.splits)
next
  case (Some m')
  with assms show ?thesis
    by (auto simp: load_script_hit)
qed


lemma load_report_fresh:
  "load_script sample_runtime sample_storage (str ''report'') fresh_state =
     (Inr report_module, loaded_state)"
  by (simp add: load_script_def load_script_body_def fresh_state_def
      is_script_name_safe_def script_name_class_def in_class_def
      path_join_def SCRIPTS_DIR_def sample_storage_def report_module_def loaded_state_def
      maxsize_def)

lemma load_script_again:
  assumes first: "load_script rt fs name st = (Inr m, st1)"
  shows "\<exists>st2. load_script rt fs' name st1 = (Inr m, st2) \<and>
           init_log st2 = init_log st1 \<and>
           count_list (init_log st2) name =
             count_list (init_log st) name + (if map_of (cache st) name = None then 1 else 0)"
proof -
  have hit: "map_of (cache st1) name = Some m"
    using first by (rule load_script_returns_cached)
  have "init_log st1 = init_log st @ (if map_of (cache st) name = None then [name] else [])"
    using first by (rule load_script_log)
  then show ?thesis
    by (simp add: load_script_hit [OF hit])
qed

lemma load_script_succeeds:
  assumes safe: "is_script_name_safe name"
    and present: "fs (path_join SCRIPTS_DIR (name @ str ''.py'')) = Some (Source (Inr attrs))"
  shows "\<exists>m st1. load_script rt fs name st = (Inr m, st1)"
proof (cases "map_of (cache st) name")
  case None
  with safe present show ?thesis
    by (simp add: load_script_miss load_script_body_def)
next
  case (Some m)
  then show ?thesis
    by (simp add: load_script_hit)
qed

text \<open>
  C2. For a validated name with a loadable source in storage, two loads in a row both
  return a module, and the same module object; the second load runs no top-level code,
  whatever the storage holds by then. Over the two calls the script's top-level code has
  run exactly once if the name was not in the cache before, and not at all if the first
  call was already served from the cache.
\<close>

theorem load_script_twice_same_module:
  assumes safe: "is_script_name_safe name"
    and present: "fs (path_join SCRIPTS_DIR (name @ str ''.py'')) = Some (Source (Inr attrs))"
  shows "\<exists>m st1 st2.
           load_script rt fs name st = (Inr m, st1) \<and>
           load_script rt fs' name st1 = (Inr m, st2) \<and>
           init_log st2 = init_log st1 \<and>
           count_list (init_log st2) name =
             count_list (init_log st) name + (if map_of (cache st) name = None then 1 else 0)"
proof -
  from load_script_succeeds [where fs = fs, OF safe present] obtain m st1 where
    first: "load_script rt fs name st = (Inr m, st1)"
    by blast
  from load_script_again [OF first] first show ?thesis
    by blast
qed

theorem load_script_twice_same_module_witness:
  "is_script_name_safe (str ''report'') \<and>
   sample_storage (path_join SCRIPTS_DIR (str ''report'' @ str ''.py'')) =
     Some (Source (Inr report_attributes)) \<and>
   load_script sample_runtime sample_storage (str ''report'') fresh_state =
     (Inr report_module, loaded_state) \<and>
   (\<exists>st2. load_script sample_runtime Map.empty (str ''report'') loaded_state =
            (Inr report_module, st2) \<and>
          init_log st2 = [str ''report''] \<and>
          count_list (init_log st2) (str ''report'') = 1)"
proof -
  have safe: "is_script_name_safe (str ''report'')"
    by (simp add: is_script_name_safe_def script_name_class_def in_class_def)
  have present: "sample_storage (path_join SCRIPTS_DIR (str ''report'' @ str ''.py'')) =
      Some (Source (Inr report_attributes))"
    by (simp add: sample_storage_def path_join_def SCRIPTS_DIR_def)
  from load_script_twice_same_module [where fs = sample_storage and rt = sample_runtime
      and st = fresh_state and fs' = Map.empty, OF safe present]
  obtain m st1 st2 where
    first: "load_script sample_runtime sample_storage (str ''report'') fresh_state =
      (Inr m, st1)"
    and second: "load_script sample_runtime Map.empty (str ''report'') st1 = (Inr m, st2)"
    and same_log: "init_log st2 = init_log st1"
    and counted: "count_list (init_log st2) (str ''report'') =
      count_list (init_log fresh_state) (str ''report'') +
      (if map_of (cache fresh_state) (str ''report'') = None then 1 else 0)"
    by blast
  from first load_report_fresh have m: "m = report_module" and st1: "st1 = loaded_state"
    by simp_all
  have "init_log st2 = [str ''report'']"
    using same_log st1 by (simp add: loaded_state_def)
  moreover have "count_list (init_log st2) (str ''report'') = 1"
    using counted by (simp add: fresh_state_def)
  ultimately have "\<exists>st2. load_script sample_runtime Map.empty (str ''report'') loaded_state =
            (Inr report_module, st2) \<and>
          init_log st2 = [str ''report''] \<and>
          count_list (init_log st2) (str ''report'') = 1"
    using second m st1 by blast
  with safe present load_report_fresh show ?thesis
    by blast
qed



section \<open>Properties of the dispatch engine\<close>

lemma run_script_async_loaded:
  assumes "load_script rt fs script_name st = (Inr module, st')"
  shows "run_script_async rt fs timer_fired script_name method_name params timeout st =
     (case map_of (attributes module) method_name of
        None \<Rightarrow> (Inl (method_not_found script_name method_name), st')
      | Some method \<Rightarrow>
          (case invoke rt timer_fired method params of
             Inl e \<Rightarrow> (Inl (handle_exception method_name e), st')
           | Inr r \<Rightarrow> (Inr r, st')))"
  using assms by (simp add: run_script_async_def)


lemma handle_type_error:
  "handle_exception method_name (PyExc [''TypeError'', ''Exception''] msg) =
     \<lparr>status_code = 400,
      detail = str ''Error calling method '' @ squote @ method_name @ squote @ str '': '' @
               msg\<rparr>"
  by (simp add: handle_exception_def isinstance_def)

lemma handle_timeout:
  "handle_exception method_name (PyExc [''asyncio.TimeoutError'', ''Exception''] msg) =
     \<lparr>status_code = 408, detail = str ''Script execution timed out.''\<rparr>"
  by (simp add: handle_exception_def isinstance_def)







lemma report_info:
  "map_of (attributes report_module) (str ''info'') =
     Some (Callable \<lparr>required = [str ''name''], optional = [str ''verbose''],
                     var_keyword = False\<rparr>
       (\<lambda>args. Inr (PDict [(PStr (str ''a''), PInt 1)])))"
  by (simp add: report_module_def report_attributes_def)

lemma report_boom:
  "map_of (attributes report_module) (str ''boom'') =
     Some (Callable \<lparr>required = [], optional = [], var_keyword = False\<rparr>
       (\<lambda>args. Inl (PyExc [''TypeError'', ''Exception'']
                        (str ''unsupported operand type(s)''))))"
  by (simp add: report_module_def report_attributes_def)



lemma report_version:
  "map_of (attributes report_module) (str ''VERSION'') = Some (Attribute (PInt 1))"
  by (simp add: report_module_def report_attributes_def)



text \<open>
  When the timer of \<open>wait_for\<close> fires before the call has delivered its outcome, the
  dispatch to an existing attribute fails with status 408, whatever the call does later.
\<close>

lemma timer_fired_is_timeout:
  assumes loaded: "load_script rt fs script_name st = (Inr module, st')"
    and found: "map_of (attributes module) method_name = Some method"
  shows "fst (run_script_async rt fs True script_name method_name params timeout st) =
    Inl \<lparr>status_code = 408, detail = str ''Script execution timed out.''\<rparr>"
  using found
  by (simp add: run_script_async_loaded [OF loaded] invoke_def wait_for_def handle_timeout)

text \<open>
  C4. The keys of the parameter mapping do not bind to the method: a key is not an
  accepted name of a method without \<open>**kwargs\<close>, or a required name is not among the
  keys. Then the dispatch fails whatever the timer does, never with status 500; and when
  the outcome of the call arrives before the timer fires, it fails with status 400 and a
  detail that ends with the interpreter's description of the mismatch.
\<close>

theorem parameter_mismatch_is_bad_request:
  assumes loaded: "load_script rt fs script_name st = (Inr module, st')"
    and found: "map_of (attributes module) method_name = Some (Callable sg body)"
    and mismatch:
      "(\<not> var_keyword sg \<and> \<not> set (map fst params) \<subseteq> set (required sg) \<union> set (optional sg)) \<or>
       \<not> set (required sg) \<subseteq> set (map fst params)"
  shows
    "fst (run_script_async rt fs False script_name method_name params timeout st) =
       Inl \<lparr>status_code = 400,
            detail = str ''Error calling method '' @ squote @ method_name @ squote @
                     str '': '' @
                     mismatch_str rt (required sg) (optional sg) (map fst params)\<rparr> \<and>
     (\<forall>timer_fired. \<exists>h.
        fst (run_script_async rt fs timer_fired script_name method_name params timeout st) =
          Inl h \<and> status_code h \<noteq> 500)"
proof -
  have "\<not> keys_match sg (map fst params)"
    using mismatch by (auto simp: keys_match_def list_all_iff)
  then have call: "call_attr rt (Callable sg body) params =
      Inl (PyExc [''TypeError'', ''Exception'']
             (mismatch_str rt (required sg) (optional sg) (map fst params)))"
    by simp
  have "\<exists>h. fst (run_script_async rt fs timer_fired script_name method_name params timeout
      st) = Inl h \<and> status_code h \<noteq> 500" for timer_fired
    using found call
    by (cases timer_fired)
      (simp_all add: run_script_async_loaded [OF loaded] invoke_def wait_for_def
        handle_type_error handle_timeout del: call_attr.simps)
  moreover have "fst (run_script_async rt fs False script_name method_name params timeout
      st) = Inl \<lparr>status_code = 400,
            detail = str ''Error calling method '' @ squote @ method_name @ squote @
                     str '': '' @
                     mismatch_str rt (required sg) (optional sg) (map fst params)\<rparr>"
    using found call
    by (simp add: run_script_async_loaded [OF loaded] invoke_def wait_for_def
        handle_type_error del: call_attr.simps)
  ultimately show ?thesis
    by blast
qed

theorem parameter_mismatch_is_bad_request_witness:
  "fst (run_script_async sample_runtime sample_storage False (str ''report'') (str ''info'')
          [(str ''nme'', PStr (str ''x''))] 300 fresh_state) =
     Inl \<lparr>status_code = 400,
          detail = str ''Error calling method '' @ squote @ str ''info'' @ squote @
                   str '': got an unexpected keyword argument''\<rparr> \<and>
   (\<forall>timer_fired. \<exists>h.
      fst (run_script_async sample_runtime sample_storage timer_fired (str ''report'')
             (str ''info'') [(str ''nme'', PStr (str ''x''))] 300 fresh_state) = Inl h \<and>
      status_code h \<noteq> 500)"
proof -
  have "(\<not> var_keyword \<lparr>required = [str ''name''], optional = [str ''verbose''],
                         var_keyword = False\<rparr> \<and>
         \<not> set (map fst [(str ''nme'', PStr (str ''x''))]) \<subseteq>
             set (required \<lparr>required = [str ''name''], optional = [str ''verbose''],
                             var_keyword = False\<rparr>) \<union>
             set (optional \<lparr>required = [str ''name''], optional = [str ''verbose''],
                             var_keyword = False\<rparr>)) \<or>
        \<not> set (required \<lparr>required = [str ''name''], optional = [str ''verbose''],
                          var_keyword = False\<rparr>) \<subseteq>
            set (map fst [(str ''nme'', PStr (str ''x''))])"
    by simp
  from parameter_mismatch_is_bad_request [OF load_report_fresh report_info this, of 300]
  show ?thesis
    by (simp add: sample_runtime_def)
qed

text \<open>
  C10. The keyword arguments bind and the body of the method raises a \<open>TypeError\<close>
  (that is not also an \<open>asyncio.TimeoutError\<close>) before the timer fires. Then the dispatch
  fails with status 400, not 500: the detail is the one of a call error, with the text of
  the exception.
\<close>

theorem type_error_in_body_is_bad_request:
  assumes loaded: "load_script rt fs script_name st = (Inr module, st')"
    and found: "map_of (attributes module) method_name = Some (Callable sg body)"
    and bound: "keys_match sg (map fst params)"
    and raised: "body params = Inl e"
    and type_error: "isinstance e ''TypeError''"
    and no_timeout: "\<not> isinstance e ''asyncio.TimeoutError''"
  shows
    "fst (run_script_async rt fs False script_name method_name params timeout st) =
       Inl \<lparr>status_code = 400,
            detail = str ''Error calling method '' @ squote @ method_name @ squote @
                     str '': '' @ exc_msg e\<rparr>"
  using found bound raised type_error no_timeout
  by (simp add: run_script_async_loaded [OF loaded] invoke_def wait_for_def
      handle_exception_def)

theorem type_error_in_body_is_bad_request_witness:
  "fst (run_script_async sample_runtime sample_storage False (str ''report'') (str ''boom'')
          [] 300 fresh_state) =
     Inl \<lparr>status_code = 400,
          detail = str ''Error calling method '' @ squote @ str ''boom'' @ squote @
                   str '': unsupported operand type(s)''\<rparr>"
proof -
  have bound: "keys_match \<lparr>required = [], optional = [], var_keyword = False\<rparr>
      (map fst ([] :: (py_str \<times> pyval) list))"
    by (simp add: keys_match_def)
  have raised: "(\<lambda>args :: (py_str \<times> pyval) list.
        Inl (PyExc [''TypeError'', ''Exception''] (str ''unsupported operand type(s)'')) ::
          py_exc + pyval) [] =
      Inl (PyExc [''TypeError'', ''Exception''] (str ''unsupported operand type(s)''))"
    by simp
  have type_error: "isinstance
      (PyExc [''TypeError'', ''Exception''] (str ''unsupported operand type(s)''))
      ''TypeError''"
    by (simp add: isinstance_def)
  have no_timeout: "\<not> isinstance
      (PyExc [''TypeError'', ''Exception''] (str ''unsupported operand type(s)''))
      ''asyncio.TimeoutError''"
    by (simp add: isinstance_def)
  from type_error_in_body_is_bad_request
    [OF load_report_fresh report_boom bound raised type_error no_timeout, of 300]
  show ?thesis
    by simp
qed

text \<open>
  C6, as the code has it. When the loaded module has no attribute of the given name, the
  dispatch fails with status 404, whatever the timer does. An attribute that exists and
  is not callable passes the test: calling it raises \<open>TypeError\<close>, and the dispatch
  fails with status 400 when that outcome arrives before the timer fires.
\<close>

theorem missing_attribute_is_not_found:
  assumes loaded: "load_script rt fs script_name st = (Inr module, st')"
  shows
    "(\<not> hasattr module method_name \<longrightarrow>
        (\<exists>d. fst (run_script_async rt fs timer_fired script_name method_name params timeout
                    st) = Inl \<lparr>status_code = 404, detail = d\<rparr>)) \<and>
     (\<forall>v. map_of (attributes module) method_name = Some (Attribute v) \<longrightarrow>
        fst (run_script_async rt fs False script_name method_name params timeout st) =
          Inl \<lparr>status_code = 400,
               detail = str ''Error calling method '' @ squote @ method_name @ squote @
                        str '': '' @ not_callable_str rt v\<rparr>)"
  by (simp add: run_script_async_loaded [OF loaded] hasattr_def method_not_found_def
      invoke_def wait_for_def handle_type_error)

theorem missing_attribute_is_not_found_witness:
  "\<not> hasattr report_module (str ''upload'') \<and>
   (\<exists>d. fst (run_script_async sample_runtime sample_storage True (str ''report'')
               (str ''upload'') [] 300 fresh_state) = Inl \<lparr>status_code = 404, detail = d\<rparr>) \<and>
   map_of (attributes report_module) (str ''VERSION'') = Some (Attribute (PInt 1)) \<and>
   fst (run_script_async sample_runtime sample_storage False (str ''report'')
          (str ''VERSION'') [] 300 fresh_state) =
     Inl \<lparr>status_code = 400,
          detail = str ''Error calling method '' @ squote @ str ''VERSION'' @ squote @
                   str '': object is not callable''\<rparr>"
proof -
  have absent: "\<not> hasattr report_module (str ''upload'')"
    by (simp add: hasattr_def report_module_def report_attributes_def)
  from missing_attribute_is_not_found [OF load_report_fresh, of "str ''upload''" True "[]" 300]
    missing_attribute_is_not_found [OF load_report_fresh, of "str ''VERSION''" True "[]" 300]
    absent report_version
  show ?thesis
    by (simp add: sample_runtime_def)
qed

theorem non_callable_attribute_counterexample:
  "load_script sample_runtime sample_storage (str ''report'') fresh_state =
     (Inr report_module, loaded_state) \<and>
   \<not> callable_attribute report_module (str ''VERSION'') \<and>
   fst (run_script_async sample_runtime sample_storage False (str ''report'')
          (str ''VERSION'') [] 300 fresh_state) =
     Inl \<lparr>status_code = 400,
          detail = str ''Error calling method '' @ squote @ str ''VERSION'' @ squote @
                   str '': object is not callable''\<rparr>"
proof -
  have not_callable: "\<not> callable_attribute report_module (str ''VERSION'')"
    by (simp del: str.simps add: callable_attribute_def report_version)
  have run: "fst (run_script_async sample_runtime sample_storage False (str ''report'')
      (str ''VERSION'') [] 300 fresh_state) =
      Inl \<lparr>status_code = 400,
           detail = str ''Error calling method '' @ squote @ str ''VERSION'' @ squote @
                    str '': '' @ not_callable_str sample_runtime (PInt 1)\<rparr>"
    by (simp del: str.simps
        add: run_script_async_loaded [OF load_report_fresh] report_version invoke_def
          wait_for_def handle_type_error)
  from load_report_fresh not_callable run show ?thesis
    by (simp add: sample_runtime_def)
qed

section \<open>Properties of the remote command executor\<close>

lemma handle_output_cases:
  assumes "handle_output w parse_json stdout_str result = (raised, result')"
  shows "(raised \<noteq> None \<longrightarrow> result' = result) \<and>
         (raised = None \<longrightarrow> (\<exists>v. result' = result\<lparr>stdout := v\<rparr>))"
  using assms by (auto simp: handle_output_def split: if_splits sum.splits)

lemma status_after_update:
  "((if code = 0 then str ''success'' else str ''error'') = str ''success'') = (code = (0::int))"
  by simp

lemma assemble_result_cases:
  assumes "assemble_result w parse_json code out err result = (raised, result')"
  shows "(raised \<noteq> None \<longrightarrow> result' = result) \<and>
         (raised = None \<longrightarrow>
            (status result' = str ''success'' \<longleftrightarrow> exit_code result' = 0) \<and>
            error result' = error result)"
proof (cases "decode w out")
  case (Inl e)
  with assms show ?thesis by (auto simp: assemble_result_def)
next
  case out_text: (Inr out_text)
  show ?thesis
  proof (cases "decode w err")
    case (Inl e)
    with assms out_text show ?thesis by (auto simp: assemble_result_def)
  next
    case err_text: (Inr err_text)
    obtain a r where handled:
      "handle_output w parse_json (strip w out_text) result = (a, r)"
      by (cases "handle_output w parse_json (strip w out_text) result")
    note ho = handle_output_cases [OF handled]
    show ?thesis
    proof (cases a)
      case None
      with ho obtain v where "r = result\<lparr>stdout := v\<rparr>" by auto
      with assms out_text err_text handled None show ?thesis
        by (auto simp del: str.simps simp: assemble_result_def Let_def status_after_update)
    next
      case (Some e)
      with ho have "r = result" by simp
      with assms out_text err_text handled Some show ?thesis
        by (auto simp: assemble_result_def Let_def)
    qed
  qed
qed

lemma read_channel_cases:
  assumes "read_channel w ch parse_json buffer_size result = Some (raised, result')"
  shows "(raised \<noteq> None \<longrightarrow> result' = result) \<and>
         (raised = None \<longrightarrow>
            (status result' = str ''success'' \<longleftrightarrow> exit_code result' = 0) \<and>
            error result' = error result)"
proof (cases "drain ch buffer_size 0 [] []")
  case None
  with assms show ?thesis by (simp add: read_channel_def)
next
  case (Some d)
  show ?thesis
  proof (cases d)
    case (Inl e)
    with assms Some show ?thesis by (auto simp: read_channel_def)
  next
    case (Inr t)
    obtain n out err where t: "t = (n, out, err)" by (cases t)
    show ?thesis
    proof (cases "recv ch n buffer_size")
      case (Inl e)
      with assms Some Inr t show ?thesis by (auto simp: read_channel_def)
    next
      case last_out: (Inr last_out)
      show ?thesis
      proof (cases "recv_stderr ch n buffer_size")
        case (Inl e)
        with assms Some Inr t last_out show ?thesis by (auto simp: read_channel_def)
      next
        case last_err: (Inr last_err)
        with assms Some Inr t last_out
        have "assemble_result w parse_json (recv_exit_status ch) (out @ last_out)
            (err @ last_err) result = (raised, result')"
          by (simp add: read_channel_def)
        then show ?thesis by (rule assemble_result_cases)
      qed
    qed
  qed
qed

lemma ssh_try_cases:
  assumes "ssh_try w host command username password port timeout key_filename policy
      parse_json buffer_size result = Some (events, raised, result')"
  shows "(raised \<noteq> None \<longrightarrow> result' = result) \<and>
         (raised = None \<longrightarrow>
            (status result' = str ''success'' \<longleftrightarrow> exit_code result' = 0) \<and>
            error result' = error result)"
proof (cases "map_of policy_table policy")
  case None
  with assms show ?thesis by (auto simp: ssh_try_def)
next
  case (Some hp)
  show ?thesis
  proof (cases "connect w hp
      (build_connect_args host port username timeout password key_filename)")
    case connected: None
    show ?thesis
    proof (cases "session w command")
      case (Inl e)
      with assms Some connected show ?thesis by (auto simp: ssh_try_def)
    next
      case (Inr ch)
      with assms Some connected
      have "read_channel w ch parse_json buffer_size result = Some (raised, result')"
        by (auto simp: ssh_try_def split: option.splits)
      then show ?thesis by (rule read_channel_cases)
    qed
  next
    case (Some e)
    with assms \<open>map_of policy_table policy = Some hp\<close> show ?thesis
      by (auto simp: ssh_try_def)
  qed
qed

lemma handle_ssh_exception_fields:
  "status (handle_ssh_exception e result) = status result \<and>
   exit_code (handle_ssh_exception e result) = exit_code result \<and>
   stdout (handle_ssh_exception e result) = stdout result \<and>
   stderr (handle_ssh_exception e result) = stderr result \<and>
   error (handle_ssh_exception e result) \<noteq> []"
  by (simp add: handle_ssh_exception_def)

lemma ssh_try_connect_fails:
  assumes "\<forall>p a. connect w p a \<noteq> None"
    and "policy \<in> set [str ''auto'', str ''warning'', str ''strict'']"
  shows "\<exists>events e. ssh_try w host command username password port timeout key_filename
      policy parse_json buffer_size result = Some (events, Some e, result)"
proof -
  from assms(2) obtain hp where "map_of policy_table policy = Some hp"
    by (auto simp: policy_table_def)
  moreover from assms(1) obtain e where
    "connect w hp (build_connect_args host port username timeout password key_filename) =
       Some e"
    by blast
  ultimately show ?thesis
    by (simp add: ssh_try_def)
qed

lemma execute_command_returns:
  assumes "execute_command w host command username password port timeout key_filename
      policy parse_json buffer_size = Some (events, Inr r)"
  shows "policy \<in> set [str ''auto'', str ''warning'', str ''strict''] \<and>
    (\<exists>evs raised r'.
       ssh_try w host command username password port timeout key_filename policy parse_json
         buffer_size (initial_result host) = Some (evs, raised, r') \<and>
       r = (case raised of None \<Rightarrow> r' | Some e \<Rightarrow> handle_ssh_exception e r')
             \<lparr>execution_time := elapsed w\<rparr>)"
proof -
  let ?tried = "ssh_try w host command username password port timeout key_filename policy
      parse_json buffer_size (initial_result host)"
  from assms have valid: "missing_parameters host username command = []"
    "policy \<in> set [str ''auto'', str ''warning'', str ''strict'']"
    by (auto simp del: str.simps simp: execute_command_def Let_def split: if_splits)
  with assms obtain evs raised r' where tried: "?tried = Some (evs, raised, r')"
    by (cases ?tried) (auto simp del: str.simps simp: execute_command_def Let_def)
  with assms valid
  have "r = (case raised of None \<Rightarrow> r' | Some e \<Rightarrow> handle_ssh_exception e r')
              \<lparr>execution_time := elapsed w\<rparr>"
    by (auto simp del: str.simps simp: execute_command_def Let_def)
  with valid tried show ?thesis
    by blast
qed

text \<open>
  C5. In every result that \<open>execute_command\<close> returns, the status is \<open>success\<close> exactly
  when the exit code is 0. When the \<open>try\<close> block raised an exception, and so whenever
  \<open>connect\<close> raises (no connection, or authentication refused), the result has exit code
  -1, a non-empty \<open>error\<close>, \<open>stdout\<close> still \<open>None\<close> and \<open>stderr\<close> still empty.
\<close>

theorem execute_command_result_invariant:
  assumes returned: "execute_command w host command username password port timeout
      key_filename policy parse_json buffer_size = Some (events, Inr r)"
  shows
    "(status r = str ''success'' \<longleftrightarrow> exit_code r = 0) \<and>
     ((\<exists>evs e r0. ssh_try w host command username password port timeout key_filename policy
          parse_json buffer_size (initial_result host) = Some (evs, Some e, r0)) \<longrightarrow>
        exit_code r = - 1 \<and> error r \<noteq> [] \<and> stdout r = PNone \<and> stderr r = []) \<and>
     ((\<forall>p a. connect w p a \<noteq> None) \<longrightarrow>
        exit_code r = - 1 \<and> error r \<noteq> [] \<and> stdout r = PNone \<and> stderr r = [])"
proof -
  from execute_command_returns [OF returned] obtain evs raised r' where
    valid: "policy \<in> set [str ''auto'', str ''warning'', str ''strict'']"
    and tried: "ssh_try w host command username password port timeout key_filename policy
      parse_json buffer_size (initial_result host) = Some (evs, raised, r')"
    and r: "r = (case raised of None \<Rightarrow> r' | Some e \<Rightarrow> handle_ssh_exception e r')
                  \<lparr>execution_time := elapsed w\<rparr>"
    by blast
  note cases = ssh_try_cases [OF tried]
  have failure: "exit_code r = - 1 \<and> error r \<noteq> [] \<and> stdout r = PNone \<and> stderr r = []"
    if "raised = Some e" for e
    using that cases r handle_ssh_exception_fields [of e "initial_result host"]
    by (simp add: initial_result_def)
  have iff: "status r = str ''success'' \<longleftrightarrow> exit_code r = 0"
  proof (cases raised)
    case None
    with cases r show ?thesis by simp
  next
    case (Some e)
    with cases r handle_ssh_exception_fields [of e "initial_result host"] show ?thesis
      by (simp add: initial_result_def)
  qed
  have general: "(\<exists>evs e r0. ssh_try w host command username password port timeout
      key_filename policy parse_json buffer_size (initial_result host) =
        Some (evs, Some e, r0)) \<longrightarrow>
      exit_code r = - 1 \<and> error r \<noteq> [] \<and> stdout r = PNone \<and> stderr r = []"
    using tried failure by auto
  have connecting: "(\<forall>p a. connect w p a \<noteq> None) \<longrightarrow>
      exit_code r = - 1 \<and> error r \<noteq> [] \<and> stdout r = PNone \<and> stderr r = []"
  proof
    assume "\<forall>p a. connect w p a \<noteq> None"
    from ssh_try_connect_fails [OF this valid, of host command username password port
        timeout key_filename parse_json buffer_size "initial_result host"] tried
    obtain e where "raised = Some e"
      by auto
    then show "exit_code r = - 1 \<and> error r \<noteq> [] \<and> stdout r = PNone \<and> stderr r = []"
      by (rule failure)
  qed
  from iff general connecting show ?thesis
    by blast
qed

lemma drain_sample_channel:
  "drain sample_channel buffer_size 0 [] [] = Some (Inr (1, ''ok'', []))"
  by (subst drain.simps, simp add: sample_channel_def, subst drain.simps,
      simp add: sample_channel_def)

lemma execute_command_unreachable:
  "execute_command unreachable_world (str ''10.0.0.9'') (str ''uptime'') (Some (str ''root''))
     None 22 10 None (str ''warning'') True 65535 =
   Some ([PerfCounter,
          Connect WarningPolicy
            [(''hostname'', PStr (str ''10.0.0.9'')), (''port'', PInt 22),
             (''username'', PStr (str ''root'')), (''timeout'', PInt 10),
             (''banner_timeout'', PInt 30), (''auth_timeout'', PInt 10)],
          PerfCounter],
         Inr \<lparr>status = str ''error'', exit_code = - 1, stdout = PNone, stderr = [],
              error = str ''Connection error: timeout: timed out'', execution_time = 12,
              result_host = str ''10.0.0.9''\<rparr>)"
  by (simp add: execute_command_def missing_parameters_def truthy_def initial_result_def
      ssh_try_def policy_table_def build_connect_args_def str_arg_def unreachable_world_def
      working_world_def handle_ssh_exception_def isinstance_def type_name_def)

lemma execute_command_rejected:
  "execute_command rejecting_world (str ''10.0.0.8'') (str ''uptime'') (Some (str ''root''))
     (Some (str ''wrong'')) 22 10 None (str ''auto'') True 65535 =
   Some ([PerfCounter,
          Connect AutoAddPolicy
            [(''hostname'', PStr (str ''10.0.0.8'')), (''port'', PInt 22),
             (''username'', PStr (str ''root'')), (''timeout'', PInt 10),
             (''banner_timeout'', PInt 30), (''auth_timeout'', PInt 10),
             (''password'', PStr (str ''wrong''))],
          PerfCounter],
         Inr \<lparr>status = str ''error'', exit_code = - 1, stdout = PNone, stderr = [],
              error = str ''Authentication failed: Check credentials'', execution_time = 12,
              result_host = str ''10.0.0.8''\<rparr>)"
  by (simp add: execute_command_def missing_parameters_def truthy_def initial_result_def
      ssh_try_def policy_table_def build_connect_args_def str_arg_def rejecting_world_def
      working_world_def handle_ssh_exception_def isinstance_def type_name_def)

lemma execute_command_working:
  "execute_command working_world (str ''10.0.0.7'') (str ''echo ok'') (Some (str ''root''))
     (Some (str ''secret'')) 22 10 None (str ''strict'') True 65535 =
   Some ([PerfCounter,
          Connect RejectPolicy
            [(''hostname'', PStr (str ''10.0.0.7'')), (''port'', PInt 22),
             (''username'', PStr (str ''root'')), (''timeout'', PInt 10),
             (''banner_timeout'', PInt 30), (''auth_timeout'', PInt 10),
             (''password'', PStr (str ''secret''))],
          ExecCommand (str ''echo ok''),
          PerfCounter],
         Inr \<lparr>status = str ''success'', exit_code = 0, stdout = PStr (str ''ok''),
              stderr = [], error = [], execution_time = 12,
              result_host = str ''10.0.0.7''\<rparr>)"
proof -
  have "read_channel working_world sample_channel True 65535
      (initial_result (str ''10.0.0.7'')) =
      Some (None, \<lparr>status = str ''success'', exit_code = 0, stdout = PStr (str ''ok''),
                   stderr = [], error = [], execution_time = 0,
                   result_host = str ''10.0.0.7''\<rparr>)"
    by (simp add: read_channel_def drain_sample_channel)
      (simp add: sample_channel_def assemble_result_def handle_output_def working_world_def
        isinstance_def initial_result_def)
  then show ?thesis
    by (simp add: execute_command_def missing_parameters_def truthy_def ssh_try_def
        policy_table_def build_connect_args_def str_arg_def)
      (simp add: working_world_def)
qed

theorem execute_command_result_invariant_witness:
  "(\<forall>p a. connect unreachable_world p a \<noteq> None) \<and>
   (\<exists>events r.
      execute_command unreachable_world (str ''10.0.0.9'') (str ''uptime'')
        (Some (str ''root'')) None 22 10 None (str ''warning'') True 65535 =
        Some (events, Inr r) \<and>
      status r = str ''error'' \<and> exit_code r = - 1 \<and> error r \<noteq> [] \<and> stdout r = PNone \<and>
      stderr r = []) \<and>
   (\<exists>evs e r0.
      ssh_try unreachable_world (str ''10.0.0.9'') (str ''uptime'') (Some (str ''root''))
        None 22 10 None (str ''warning'') True 65535 (initial_result (str ''10.0.0.9'')) =
        Some (evs, Some e, r0)) \<and>
   (\<forall>p a. connect rejecting_world p a \<noteq> None) \<and>
   (\<exists>events r.
      execute_command rejecting_world (str ''10.0.0.8'') (str ''uptime'')
        (Some (str ''root'')) (Some (str ''wrong'')) 22 10 None (str ''auto'') True 65535 =
        Some (events, Inr r) \<and>
      status r = str ''error'' \<and> exit_code r = - 1 \<and>
      error r = str ''Authentication failed: Check credentials'' \<and> stdout r = PNone \<and>
      stderr r = []) \<and>
   (\<exists>events r.
      execute_command working_world (str ''10.0.0.7'') (str ''echo ok'')
        (Some (str ''root'')) (Some (str ''secret'')) 22 10 None (str ''strict'') True 65535 =
        Some (events, Inr r) \<and>
      status r = str ''success'' \<and> exit_code r = 0)"
proof -
  have rejected: "\<forall>p a. connect rejecting_world p a \<noteq> None"
    by (simp add: rejecting_world_def)
  have refused: "\<forall>p a. connect unreachable_world p a \<noteq> None"
    by (simp add: unreachable_world_def)
  have tried: "\<exists>evs e r0.
      ssh_try unreachable_world (str ''10.0.0.9'') (str ''uptime'') (Some (str ''root''))
        None 22 10 None (str ''warning'') True 65535 (initial_result (str ''10.0.0.9'')) =
        Some (evs, Some e, r0)"
    by (simp add: ssh_try_def policy_table_def unreachable_world_def)
  from execute_command_result_invariant [OF execute_command_unreachable]
    execute_command_result_invariant [OF execute_command_working]
    execute_command_result_invariant [OF execute_command_rejected]
    execute_command_unreachable execute_command_working execute_command_rejected refused
    rejected tried
  show ?thesis
    by simp
qed

text \<open>
  C7. When \<open>host\<close>, \<open>username\<close> or \<open>command\<close> is missing, the function raises one
  \<open>SSHError\<close> whose message lists, joined by commas, exactly the missing ones. When the
  policy is none of \<open>auto\<close>, \<open>warning\<close> and \<open>strict\<close>, it raises an \<open>SSHError\<close>, the one
  for an invalid policy when no required argument is missing. In both cases it has read
  no clock and attempted no connection, whatever the world outside is.
\<close>

theorem execute_command_validation:
  "(host = [] \<or> \<not> truthy username \<or> command = [] \<longrightarrow>
      (\<exists>names.
         execute_command w host command username password port timeout key_filename policy
           parse_json buffer_size =
           Some ([], Inl (SSHError (str ''Missing required parameters: '' @
                                     join (str '', '') names))) \<and>
         (str ''host'' \<in> set names \<longleftrightarrow> host = []) \<and>
         (str ''username'' \<in> set names \<longleftrightarrow> \<not> truthy username) \<and>
         (str ''command'' \<in> set names \<longleftrightarrow> command = []) \<and>
         set names \<subseteq> {str ''host'', str ''username'', str ''command''} \<and>
         distinct names)) \<and>
   (policy \<notin> {str ''auto'', str ''warning'', str ''strict''} \<longrightarrow>
      (\<exists>msg.
         execute_command w host command username password port timeout key_filename policy
           parse_json buffer_size = Some ([], Inl (SSHError msg)) \<and>
         (host \<noteq> [] \<and> truthy username \<and> command \<noteq> [] \<longrightarrow>
            msg = str ''Invalid host policy. Valid options: auto, warning, strict'')))"
proof (intro conjI impI)
  assume missing: "host = [] \<or> \<not> truthy username \<or> command = []"
  then have nonempty: "missing_parameters host username command \<noteq> []"
    by (auto simp: missing_parameters_def)
  have "execute_command w host command username password port timeout key_filename policy
      parse_json buffer_size =
      Some ([], Inl (SSHError (str ''Missing required parameters: '' @
        join (str '', '') (missing_parameters host username command))))"
    using nonempty by (simp del: str.simps add: execute_command_def Let_def)
  moreover have "(str ''host'' \<in> set (missing_parameters host username command) \<longleftrightarrow>
      host = [])"
    "(str ''username'' \<in> set (missing_parameters host username command) \<longleftrightarrow>
      \<not> truthy username)"
    "(str ''command'' \<in> set (missing_parameters host username command) \<longleftrightarrow>
      command = [])"
    "set (missing_parameters host username command) \<subseteq>
      {str ''host'', str ''username'', str ''command''}"
    "distinct (missing_parameters host username command)"
    by (auto simp: missing_parameters_def)
  ultimately show "\<exists>names.
      execute_command w host command username password port timeout key_filename policy
        parse_json buffer_size =
        Some ([], Inl (SSHError (str ''Missing required parameters: '' @
                                  join (str '', '') names))) \<and>
      (str ''host'' \<in> set names \<longleftrightarrow> host = []) \<and>
      (str ''username'' \<in> set names \<longleftrightarrow> \<not> truthy username) \<and>
      (str ''command'' \<in> set names \<longleftrightarrow> command = []) \<and>
      set names \<subseteq> {str ''host'', str ''username'', str ''command''} \<and>
      distinct names"
    by blast
next
  assume invalid: "policy \<notin> {str ''auto'', str ''warning'', str ''strict''}"
  show "\<exists>msg.
      execute_command w host command username password port timeout key_filename policy
        parse_json buffer_size = Some ([], Inl (SSHError msg)) \<and>
      (host \<noteq> [] \<and> truthy username \<and> command \<noteq> [] \<longrightarrow>
         msg = str ''Invalid host policy. Valid options: auto, warning, strict'')"
  proof (cases "missing_parameters host username command = []")
    case True
    with invalid show ?thesis
      by (simp del: str.simps add: execute_command_def Let_def)
  next
    case False
    then have absent: "\<not> (host \<noteq> [] \<and> truthy username \<and> command \<noteq> [])"
      by (auto simp: missing_parameters_def split: if_splits)
    have "execute_command w host command username password port timeout key_filename
        policy parse_json buffer_size =
        Some ([], Inl (SSHError (str ''Missing required parameters: '' @
          join (str '', '') (missing_parameters host username command))))"
      using False by (simp del: str.simps add: execute_command_def Let_def)
    with absent show ?thesis
      by blast
  qed
qed

theorem execute_command_validation_witness:
  "execute_command unreachable_world [] [] (Some (str ''root'')) None 22 10 None
     (str ''warning'') True 65535 =
     Some ([], Inl (SSHError (str ''Missing required parameters: host, command''))) \<and>
   execute_command unreachable_world (str ''10.0.0.9'') (str ''uptime'') (Some (str ''root''))
     None 22 10 None (str ''trusting'') True 65535 =
     Some ([], Inl (SSHError
                     (str ''Invalid host policy. Valid options: auto, warning, strict'')))"
proof -
  note inst1 = execute_command_validation [where host = "[]" and command = "[]"
      and username = "Some (str ''root'')" and w = unreachable_world and password = None
      and port = 22 and timeout = 10 and key_filename = None and policy = "str ''warning''"
      and parse_json = True and buffer_size = 65535]
  note inst2 = execute_command_validation [where host = "str ''10.0.0.9''"
      and command = "str ''uptime''"
      and username = "Some (str ''root'')" and w = unreachable_world and password = None
      and port = 22 and timeout = 10 and key_filename = None and policy = "str ''trusting''"
      and parse_json = True and buffer_size = 65535]
  from inst1 obtain names where
    first: "execute_command unreachable_world [] [] (Some (str ''root'')) None 22 10 None
        (str ''warning'') True 65535 =
        Some ([], Inl (SSHError (str ''Missing required parameters: '' @
                                  join (str '', '') names)))"
    by auto
  have "execute_command unreachable_world [] [] (Some (str ''root'')) None 22 10 None
      (str ''warning'') True 65535 =
      Some ([], Inl (SSHError (str ''Missing required parameters: host, command'')))"
    by (simp add: execute_command_def missing_parameters_def truthy_def)
  moreover from inst2
  have "execute_command unreachable_world (str ''10.0.0.9'') (str ''uptime'')
      (Some (str ''root'')) None 22 10 None (str ''trusting'') True 65535 =
      Some ([], Inl (SSHError
                      (str ''Invalid host policy. Valid options: auto, warning, strict'')))"
    by (auto simp: truthy_def)
  ultimately show ?thesis
    using first by simp
qed

end
